theory Spec2Isabelle
  imports Complex_Main "HOL-Library.Word"
begin

section \<open>Values\<close>

text \<open>
  The index functions of the component receive JavaScript values. The model keeps the
  numbers and \<open>undefined\<close> (a field the payload does not have). A number is finite
  (every number of a JSON payload is; comparisons of finite doubles are exact, so a
  finite number is a real here), or \<open>NaN\<close>, or one of the two infinities.
\<close>

datatype jsval = Undefined | NaN | PosInfinity | NegInfinity | Num real

fun typeof_number :: "jsval \<Rightarrow> bool" where
  "typeof_number Undefined = False"
| "typeof_number NaN = True"
| "typeof_number PosInfinity = True"
| "typeof_number NegInfinity = True"
| "typeof_number (Num x) = True"

text \<open>\<open>v <= c\<close> and \<open>v >= c\<close> against a numeric constant: \<open>undefined\<close> converts to
  \<open>NaN\<close>, and every comparison with \<open>NaN\<close> is false.\<close>

fun js_le :: "jsval \<Rightarrow> real \<Rightarrow> bool" where
  "js_le (Num x) c = (x \<le> c)"
| "js_le NegInfinity c = True"
| "js_le PosInfinity c = False"
| "js_le NaN c = False"
| "js_le Undefined c = False"

fun js_ge :: "jsval \<Rightarrow> real \<Rightarrow> bool" where
  "js_ge (Num x) c = (c \<le> x)"
| "js_ge NegInfinity c = False"
| "js_ge PosInfinity c = True"
| "js_ge NaN c = False"
| "js_ge Undefined c = False"

fun truthy :: "jsval \<Rightarrow> bool" where
  "truthy (Num x) = (x \<noteq> 0)"
| "truthy NegInfinity = True"
| "truthy PosInfinity = True"
| "truthy NaN = False"
| "truthy Undefined = False"

section \<open>Normalised index\<close>

text \<open>The object literal \<open>conversion\<close> of \<open>convertOpenWeatherMapAQI\<close>, keys in source order.\<close>

definition conversion :: "(real \<times> real) list" where
  "conversion = [(1, 20), (2, 60), (3, 120), (4, 180), (5, 250)]"

text \<open>\<open>conversion[owmAQI]\<close>: the property named by the key; a key the object does not have
  (also the keys \<open>NaN\<close>, \<open>Infinity\<close>, \<open>-Infinity\<close> and \<open>undefined\<close>) reads
  \<open>undefined\<close>.\<close>

fun conversion_lookup :: "jsval \<Rightarrow> jsval" where
  "conversion_lookup (Num x) = (case map_of conversion x of Some y \<Rightarrow> Num y | None \<Rightarrow> Undefined)"
| "conversion_lookup NaN = Undefined"
| "conversion_lookup PosInfinity = Undefined"
| "conversion_lookup NegInfinity = Undefined"
| "conversion_lookup Undefined = Undefined"

definition convertOpenWeatherMapAQI :: "jsval \<Rightarrow> jsval" where
  "convertOpenWeatherMapAQI owmAQI =
     (if truthy (conversion_lookup owmAQI) then conversion_lookup owmAQI else owmAQI)"

section \<open>Display colour and label\<close>

definition getAQIColor :: "jsval \<Rightarrow> string" where
  "getAQIColor aqi =
     (if typeof_number aqi \<and> js_ge aqi 1 \<and> js_le aqi 5 then
        (if aqi = Num 1 then ''#22c55e''
         else if aqi = Num 2 then ''#eab308''
         else if aqi = Num 3 then ''#f97316''
         else if aqi = Num 4 then ''#ef4444''
         else if aqi = Num 5 then ''#8F3F97''
         else ''#6b7280'')
      else if js_le aqi 50 then ''#22c55e''
      else if js_le aqi 100 then ''#eab308''
      else if js_le aqi 150 then ''#f97316''
      else if js_le aqi 200 then ''#ef4444''
      else if js_le aqi 300 then ''#8F3F97''
      else ''#6b7280'')"

definition getAQIDescription :: "jsval \<Rightarrow> string" where
  "getAQIDescription aqi =
     (if typeof_number aqi \<and> js_ge aqi 1 \<and> js_le aqi 5 then
        (if aqi = Num 1 then ''Good''
         else if aqi = Num 2 then ''Fair''
         else if aqi = Num 3 then ''Moderate''
         else if aqi = Num 4 then ''Poor''
         else if aqi = Num 5 then ''Very Poor''
         else ''Unknown'')
      else if js_le aqi 50 then ''Good''
      else if js_le aqi 100 then ''Moderate''
      else if js_le aqi 150 then ''Unhealthy for Sensitive Groups''
      else if js_le aqi 200 then ''Unhealthy''
      else if js_le aqi 300 then ''Very Unhealthy''
      else ''Hazardous'')"

definition getAQIStatus :: "jsval \<Rightarrow> string" where
  "getAQIStatus aqi = getAQIDescription aqi"

section \<open>Dominant pollutant\<close>

datatype pollutant = PM2_5 | PM10 | NO2 | SO2 | O3 | CO

text \<open>
  The object \<open>pollutants\<close>: its six keys in the order the component writes them, which
  is the order \<open>Object.entries\<close> enumerates. A concentration is a finite double, given
  by the real number it denotes.
\<close>

type_synonym reading = "(pollutant \<times> real) list"

fun guidelines :: "pollutant \<Rightarrow> real" where
  "guidelines PM2_5 = 15"
| "guidelines PM10 = 45"
| "guidelines NO2 = 25"
| "guidelines SO2 = 40"
| "guidelines O3 = 100"
| "guidelines CO = 4000"

text \<open>
  The division of two doubles is the exact quotient rounded to the nearest double, a tie
  going to the double with the even significand. A double is an integer multiple of a
  power of two: for a normal number (from 2 to the power -1022 on) the power whose
  exponent is the binary exponent of the number minus 52, below them 2 to the power
  -1074. A quotient that is too small rounds to 0. The quotient of a finite double by
  a guideline is smaller than the double, so it never overflows, and overflow is not
  modelled.
\<close>

text \<open>The number of binary digits of a positive integer.\<close>

function bits :: "int \<Rightarrow> int" where
  "bits n = (if n \<le> 0 then 0 else 1 + bits (n div 2))"
  by pat_completeness auto
termination
  by (relation "measure nat") auto

declare bits.simps [simp del]

text \<open>The binary exponent of a positive number \<open>x\<close>: the \<open>e\<close> with \<open>2 powi e \<le> x < 2 powi (e + 1)\<close>.\<close>

definition exponent :: "real \<Rightarrow> int" where
  "exponent x =
     (if 1 \<le> x then bits \<lfloor>x\<rfloor> - 1 else - bits (\<lceil>1 / x\<rceil> - 1))"

definition round_half_even :: "real \<Rightarrow> int" where
  "round_half_even x =
     (let f = \<lfloor>x\<rfloor>; r = x - of_int f
      in if r < 1 / 2 then f else if 1 / 2 < r then f + 1 else if even f then f else f + 1)"

definition to_double :: "real \<Rightarrow> real" where
  "to_double x =
     (if \<bar>x\<bar> < 1 / 2 ^ 1022 then of_int (round_half_even (x * 2 ^ 1074)) / 2 ^ 1074
      else let q = exponent \<bar>x\<bar> - 52
           in of_int (round_half_even (x / 2 powi q)) * 2 powi q)"

text \<open>\<open>value / guidelines[key]\<close> for an entry \<open>[key, value]\<close>.\<close>

definition ratio :: "pollutant \<times> real \<Rightarrow> real" where
  "ratio entry = to_double (snd entry / guidelines (fst entry))"

text \<open>One call of the \<open>forEach\<close> callback on the pair \<open>(maxRatio, dominant)\<close>.\<close>

definition dominant_step :: "real \<times> pollutant option \<Rightarrow> pollutant \<times> real \<Rightarrow> real \<times> pollutant option" where
  "dominant_step acc entry =
     (if ratio entry > fst acc then (ratio entry, Some (fst entry)) else acc)"

definition getDominantPollutant :: "reading option \<Rightarrow> pollutant option" where
  "getDominantPollutant pollutants =
     (case pollutants of
        None \<Rightarrow> None
      | Some ps \<Rightarrow> snd (foldl dominant_step (0, None) ps))"

definition mk_reading :: "real \<Rightarrow> real \<Rightarrow> real \<Rightarrow> real \<Rightarrow> real \<Rightarrow> real \<Rightarrow> reading" where
  "mk_reading a b c d e f = [(PM2_5, a), (PM10, b), (NO2, c), (SO2, d), (O3, e), (CO, f)]"

section \<open>Location resolution\<close>

definition CACHE_EXPIRY_TIME :: int where
  "CACHE_EXPIRY_TIME = 30 * 60 * 1000"

text \<open>
  The entry \<open>user_location\<close> of the local storage: absent, a text that \<open>JSON.parse\<close>
  rejects, or a record as \<open>cachePosition\<close> writes it (latitude, longitude, timestamp in
  milliseconds).
\<close>

datatype storage_item = NoItem | Unparsable | Item real real int

definition getCachedPosition :: "storage_item \<Rightarrow> int \<Rightarrow> (real \<times> real) option" where
  "getCachedPosition cached now =
     (case cached of
        NoItem \<Rightarrow> None
      | Unparsable \<Rightarrow> None
      | Item lat lon timestamp \<Rightarrow>
          if now - timestamp < CACHE_EXPIRY_TIME then Some (lat, lon) else None)"

text \<open>\<open>cachePosition\<close>: a \<open>setItem\<close> that throws is caught and leaves the entry as it was.\<close>

definition cachePosition :: "bool \<Rightarrow> real \<Rightarrow> real \<Rightarrow> int \<Rightarrow> storage_item \<Rightarrow> storage_item" where
  "cachePosition writable lat lon now old = (if writable then Item lat lon now else old)"

text \<open>How one \<open>getCurrentPosition\<close> request ends: a position, an error, or no callback.\<close>

datatype geo_attempt = Fix real real | Failed | NoAnswer

record loc_env =
  has_geolocation :: bool
  high_accuracy :: geo_attempt
  low_accuracy :: geo_attempt
  now :: int
  later :: int
  storage_writable :: bool

record loc_state =
  latitude :: real
  longitude :: real
  localStorage :: storage_item
  background_update :: bool

text \<open>The high-accuracy request, and on its error the low-accuracy one.\<close>

definition geolocate :: "loc_env \<Rightarrow> geo_attempt" where
  "geolocate env =
     (case high_accuracy env of
        Fix lat lon \<Rightarrow> Fix lat lon
      | Failed \<Rightarrow> low_accuracy env
      | NoAnswer \<Rightarrow> NoAnswer)"

text \<open>
  \<open>getUserLocation\<close>. \<open>now\<close> is the clock at the first read of the cache and \<open>later\<close> the
  clock after the position requests have ended. \<open>background_update\<close> records that
  \<open>updatePositionInBackground\<close> was started.
\<close>

definition getUserLocation :: "loc_env \<Rightarrow> loc_state \<Rightarrow> loc_state" where
  "getUserLocation env s =
     (case getCachedPosition (localStorage s) (now env) of
        Some (lat, lon) \<Rightarrow> s\<lparr>latitude := lat, longitude := lon, background_update := True\<rparr>
      | None \<Rightarrow>
          if has_geolocation env then
            (case geolocate env of
               Fix lat lon \<Rightarrow>
                 s\<lparr>latitude := lat, longitude := lon,
                   localStorage := cachePosition (storage_writable env) lat lon (later env) (localStorage s)\<rparr>
             | Failed \<Rightarrow>
                 (case getCachedPosition (localStorage s) (later env) of
                    Some (lat, lon) \<Rightarrow> s\<lparr>latitude := lat, longitude := lon\<rparr>
                  | None \<Rightarrow> s)
             | NoAnswer \<Rightarrow> s)
          else s)"

text \<open>The component's variables when it is mounted: the coordinates of New York City.\<close>

definition initial_location :: "storage_item \<Rightarrow> loc_state" where
  "initial_location stored =
     \<lparr>latitude = 40.7128, longitude = - 74.0060, localStorage = stored, background_update = False\<rparr>"

section \<open>Fetching the air quality\<close>

record components_t =
  pm2_5 :: real
  pm10 :: real
  no2 :: real
  so2 :: real
  o3 :: real
  co :: real

record main_t =
  aqi :: jsval

text \<open>An element of a payload's \<open>list\<close>; \<open>main\<close> and \<open>components\<close> may be missing.\<close>

record entry =
  dt :: real
  main :: "main_t option"
  components :: "components_t option"

record payload =
  payload_list :: "entry list option"

text \<open>
  A \<open>fetch\<close> is rejected, or resolves to a response with a status whose body
  \<open>json()\<close> either rejects or parses. A parsed body of the air-pollution service is an
  object whose \<open>list\<close>, when it has one, is an array of objects.
\<close>

datatype 'a body = BadJson | Json 'a

datatype 'a fetch_result = NetworkError | Response nat "'a body"

definition ok :: "nat \<Rightarrow> bool" where
  "ok status = (200 \<le> status \<and> status \<le> 299)"

datatype request = AirPollution | AirPollutionForecast

record view_state =
  error :: "string option"
  currentAQI :: jsval
  pollutants :: reading
  forecastData :: "entry list"
  lastUpdateTime :: "real option"
  chart :: "jsval list option"

definition initial_view :: view_state where
  "initial_view =
     \<lparr>error = None, currentAQI = Num 0, pollutants = mk_reading 0 0 0 0 0 0,
      forecastData = [], lastUpdateTime = None, chart = None\<rparr>"

text \<open>
  \<open>updateChart\<close>, as far as the series it draws (\<open>aqi_data\<close>; \<open>chart\<close> is the series
  on display): without a canvas it returns; an item without \<open>main\<close> makes the
  asynchronous function reject after it has destroyed the previous chart and before it
  draws, and nobody handles that rejection.
\<close>

definition updateChart :: "bool \<Rightarrow> entry list \<Rightarrow> view_state \<Rightarrow> view_state" where
  "updateChart chartCanvas data s =
     (if \<not> chartCanvas then s
      else (case those (map (\<lambda>item. map_option aqi (main item)) data) of
              None \<Rightarrow> s\<lparr>chart := None\<rparr>
            | Some aqis \<Rightarrow> s\<lparr>chart := Some (map convertOpenWeatherMapAQI aqis)\<rparr>))"

definition pollutants_of :: "components_t \<Rightarrow> reading" where
  "pollutants_of c = mk_reading (pm2_5 c) (pm10 c) (no2 c) (so2 c) (o3 c) (co c)"

text \<open>
  The \<open>try\<close> block of \<open>fetchAirQuality\<close>: \<open>Inl\<close> carries the variables as they are at
  the moment an exception is thrown, \<open>Inr\<close> the variables at the end of the block.
\<close>

definition fetch_try ::
  "payload fetch_result \<Rightarrow> payload fetch_result \<Rightarrow> bool \<Rightarrow> view_state \<Rightarrow> view_state + view_state" where
  "fetch_try currentResponse forecastResponse chartCanvas s =
     (case (currentResponse, forecastResponse) of
        (Response current_status current_body, Response forecast_status forecast_body) \<Rightarrow>
          if \<not> ok current_status then Inl s
          else if \<not> ok forecast_status then Inl s
          else
            (case (current_body, forecast_body) of
               (Json currentData, Json forecastDataResponse) \<Rightarrow>
                 (case payload_list currentData of
                    None \<Rightarrow> Inl s
                  | Some [] \<Rightarrow> Inl s
                  | Some (current # rest) \<Rightarrow>
                      (case main current of
                         None \<Rightarrow> Inl s
                       | Some m \<Rightarrow>
                           let s1 = s\<lparr>currentAQI := convertOpenWeatherMapAQI (aqi m)\<rparr>
                           in (case components current of
                                 None \<Rightarrow> Inl s1
                               | Some c \<Rightarrow>
                                   let s2 = s1\<lparr>pollutants := pollutants_of c\<rparr>;
                                       s3 = (case payload_list forecastDataResponse of
                                               None \<Rightarrow> s2
                                             | Some fl \<Rightarrow>
                                                 if length fl > 0 then
                                                   let s' = s2\<lparr>forecastData := take 24 fl\<rparr>
                                                   in if chartCanvas
                                                      then updateChart chartCanvas (forecastData s') s'
                                                      else s'
                                                 else s2)
                                   in Inr (s3\<lparr>lastUpdateTime := Some (dt current * 1000)\<rparr>))))
             | _ \<Rightarrow> Inl s)
      | _ \<Rightarrow> Inl s)"

definition fetch_error_message :: string where
  "fetch_error_message = ''Failed to fetch air quality data. Please try again later.''"

text \<open>
  \<open>fetchAirQuality\<close>, given what its two requests resolve to: the \<open>try\<close> block, and
  the \<open>catch\<close> block that writes the message.
\<close>

definition fetchAirQuality ::
  "payload fetch_result \<Rightarrow> payload fetch_result \<Rightarrow> bool \<Rightarrow> view_state \<Rightarrow> view_state" where
  "fetchAirQuality currentResponse forecastResponse chartCanvas s =
     (case fetch_try currentResponse forecastResponse chartCanvas s of
        Inl s' \<Rightarrow> s'\<lparr>error := Some fetch_error_message\<rparr>
      | Inr s' \<Rightarrow> s')"

text \<open>
  The network. What a request resolves to may depend on the requests issued before it
  (a service that fails once may answer the next request). \<open>fetch\<close> issues one request:
  it resolves it and adds it to the requests issued.
\<close>

record network =
  respond :: "request list \<Rightarrow> request \<Rightarrow> payload fetch_result"
  issued :: "request list"

definition fetch :: "request \<Rightarrow> network \<Rightarrow> payload fetch_result \<times> network" where
  "fetch req net = (respond net (issued net) req, net\<lparr>issued := issued net @ [req]\<rparr>)"




section \<open>Searching a location\<close>

text \<open>
  A string is a list of UTF-16 code units, and its length is their number. \<open>str\<close>
  writes a string of code units below 256 from its characters.
\<close>

type_synonym code_unit = "16 word"

type_synonym jsstring = "code_unit list"

definition str :: "string \<Rightarrow> jsstring" where
  "str cs = map of_char cs"

text \<open>\<open>\d\<close> matches the ten ASCII digits.\<close>

definition is_digit :: "code_unit \<Rightarrow> bool" where
  "is_digit u = (0x30 \<le> u \<and> u \<le> 0x39)"

definition all_digits :: "jsstring \<Rightarrow> bool" where
  "all_digits q = (q \<noteq> [] \<and> list_all is_digit q)"

definition zip_code :: "jsstring \<Rightarrow> bool" where
  "zip_code q = (length q = 5 \<and> list_all is_digit q)"

text \<open>\<open>trim\<close> removes the white space and the line terminators at both ends.\<close>

definition is_space :: "code_unit \<Rightarrow> bool" where
  "is_space u =
     (u \<in> set [0x9, 0xA, 0xB, 0xC, 0xD, 0x20, 0xA0, 0x1680, 0x2000, 0x2001, 0x2002, 0x2003,
        0x2004, 0x2005, 0x2006, 0x2007, 0x2008, 0x2009, 0x200A, 0x2028, 0x2029, 0x202F,
        0x205F, 0x3000, 0xFEFF])"

definition trim :: "jsstring \<Rightarrow> jsstring" where
  "trim q = rev (dropWhile is_space (rev (dropWhile is_space q)))"

text \<open>
  \<open>encodeURIComponent\<close> throws a \<open>URIError\<close> on a string that is not well formed: one
  with a high surrogate that no low surrogate follows, or a low surrogate that no high
  surrogate precedes. The model keeps whether it throws; an endpoint carries the string
  itself.
\<close>

definition is_high :: "code_unit \<Rightarrow> bool" where
  "is_high u = (0xD800 \<le> u \<and> u \<le> 0xDBFF)"

definition is_low :: "code_unit \<Rightarrow> bool" where
  "is_low u = (0xDC00 \<le> u \<and> u \<le> 0xDFFF)"

fun well_formed :: "jsstring \<Rightarrow> bool" where
  "well_formed [] = True"
| "well_formed [u] = (\<not> is_high u \<and> \<not> is_low u)"
| "well_formed (u # v # us) =
     (if is_high u then is_low v \<and> well_formed us else \<not> is_low u \<and> well_formed (v # us))"

text \<open>\<open>s.includes(t)\<close>: \<open>t\<close> occurs in \<open>s\<close> as a contiguous part.\<close>

fun js_includes :: "jsstring \<Rightarrow> jsstring \<Rightarrow> bool" where
  "js_includes [] t = (t = [])"
| "js_includes (c # cs) t = (take (length t) (c # cs) = t \<or> js_includes cs t)"

datatype endpoint = ZipLookup jsstring | DirectLookup jsstring nat

record place =
  name :: jsstring
  state :: "jsstring option"
  country :: jsstring
  lat :: real
  lon :: real

record zip_place =
  zip_name :: jsstring
  zip_country :: jsstring
  zip_lat :: real
  zip_lon :: real

text \<open>
  A parsed body of the geocoding service: an array of places, the single object of the
  postal-code lookup, or an object without these fields (an error report).
\<close>

datatype geo_json = Places "place list" | ZipPlace zip_place | ErrorObject

record search_result =
  result_name :: "jsstring option"
  result_state :: "jsstring option"
  result_country :: "jsstring option"
  result_lat :: "real option"
  result_lon :: "real option"

record search_state =
  searchResults :: "search_result list"
  isSearching :: bool
  searchError :: string

definition of_place :: "place \<Rightarrow> search_result" where
  "of_place item =
     \<lparr>result_name = Some (name item), result_state = state item,
      result_country = Some (country item), result_lat = Some (lat item),
      result_lon = Some (lon item)\<rparr>"

definition of_object :: "geo_json \<Rightarrow> search_result" where
  "of_object data =
     (case data of
        ZipPlace z \<Rightarrow>
          \<lparr>result_name = Some (zip_name z), result_state = Some [],
           result_country = Some (zip_country z), result_lat = Some (zip_lat z),
           result_lon = Some (zip_lon z)\<rparr>
      | _ \<Rightarrow>
          \<lparr>result_name = None, result_state = Some [], result_country = None,
           result_lat = None, result_lon = None\<rparr>)"

definition no_locations_message :: string where
  "no_locations_message = ''No locations found. Try a different search term.''"

definition search_error_message :: string where
  "search_error_message = ''Error searching for location. Please try again.''"

text \<open>
  The \<open>try\<close> block of \<open>searchLocation\<close>: the variables at its end, or \<open>None\<close> when an
  exception is thrown, and the requests issued, in order. \<open>toLowerCase\<close> is the case
  conversion of the engine, with its Unicode tables; the model takes it as the
  parameter \<open>lower\<close>. The address of the postal-code lookup is built without
  \<open>encodeURIComponent\<close>; the address of a free-text lookup is built with it, inside the
  block and before the request.
\<close>

definition search_try ::
  "(jsstring \<Rightarrow> jsstring) \<Rightarrow> (endpoint \<Rightarrow> geo_json fetch_result) \<Rightarrow> jsstring \<Rightarrow> search_state
     \<Rightarrow> search_state option \<times> endpoint list" where
  "search_try lower net query s =
     (if \<not> zip_code query \<and> \<not> well_formed query then (None, [])
      else
        let endpoint = (if zip_code query then ZipLookup query else DirectLookup query 10);
            not_found = s\<lparr>searchError := no_locations_message, searchResults := []\<rparr>
        in case net endpoint of
             NetworkError \<Rightarrow> (None, [endpoint])
           | Response status BadJson \<Rightarrow> (None, [endpoint])
           | Response status (Json data) \<Rightarrow>
               if status = 404 \<or> data = Places [] then
                 if \<not> zip_code query \<and> length query \<ge> 3 then
                   let lenientQuery = butlast query;
                       lenient = DirectLookup lenientQuery 10
                   in if \<not> well_formed lenientQuery then (None, [endpoint])
                      else
                        (case net lenient of
                           NetworkError \<Rightarrow> (None, [endpoint, lenient])
                         | Response lenient_status BadJson \<Rightarrow> (None, [endpoint, lenient])
                         | Response lenient_status (Json lenientData) \<Rightarrow>
                             (case lenientData of
                                Places ps \<Rightarrow>
                                  if length ps > 0 then
                                    let filteredResults =
                                          filter (\<lambda>item. js_includes (lower (name item)) (lower query)) ps
                                    in if length filteredResults > 0
                                       then (Some (s\<lparr>searchResults := map of_place filteredResults\<rparr>),
                                             [endpoint, lenient])
                                       else (Some not_found, [endpoint, lenient])
                                  else (Some not_found, [endpoint, lenient])
                              | _ \<Rightarrow> (Some not_found, [endpoint, lenient])))
                 else (Some not_found, [endpoint])
               else (case data of
                       Places ps \<Rightarrow> (Some (s\<lparr>searchResults := map of_place ps\<rparr>), [endpoint])
                     | _ \<Rightarrow> (Some (s\<lparr>searchResults := [of_object data]\<rparr>), [endpoint])))"

text \<open>\<open>searchLocation\<close>: the new variables and the requests the call issued.\<close>

definition searchLocation ::
  "(jsstring \<Rightarrow> jsstring) \<Rightarrow> (endpoint \<Rightarrow> geo_json fetch_result) \<Rightarrow> jsstring \<Rightarrow> search_state
     \<Rightarrow> search_state \<times> endpoint list" where
  "searchLocation lower net query s =
     (if trim query = [] then (s, [])
      else if length query < 3 \<and> \<not> all_digits query then (s\<lparr>searchResults := []\<rparr>, [])
      else
        (case search_try lower net query (s\<lparr>isSearching := True, searchError := []\<rparr>) of
           (Some s', reqs) \<Rightarrow> (s'\<lparr>isSearching := False\<rparr>, reqs)
         | (None, reqs) \<Rightarrow>
             (s\<lparr>isSearching := False, searchError := search_error_message, searchResults := []\<rparr>,
              reqs)))"

section \<open>Sample inputs\<close>

text \<open>Payloads and stub networks on which the theorems below are run.\<close>

abbreviation sample_components :: components_t where
  "sample_components \<equiv> \<lparr>pm2_5 = 30, pm10 = 20, no2 = 10, so2 = 5, o3 = 50, co = 2000\<rparr>"

abbreviation sample_entry :: "real \<Rightarrow> real \<Rightarrow> entry" where
  "sample_entry t c \<equiv> \<lparr>dt = t, main = Some \<lparr>aqi = Num c\<rparr>, components = Some sample_components\<rparr>"

abbreviation sample_current :: "payload fetch_result" where
  "sample_current \<equiv> Response 200 (Json \<lparr>payload_list = Some [sample_entry 1700000000 2]\<rparr>)"

abbreviation sample_forecast :: "nat \<Rightarrow> payload fetch_result" where
  "sample_forecast n \<equiv>
     Response 200 (Json \<lparr>payload_list = Some (map (\<lambda>k. sample_entry (real k) 2) [0..<n])\<rparr>)"


definition initial_search :: search_state where
  "initial_search = \<lparr>searchResults = [], isSearching = False, searchError = []\<rparr>"

text \<open>A network on which every request is rejected, and a geocoding service that
  finds nothing.\<close>

definition offline :: "endpoint \<Rightarrow> geo_json fetch_result" where
  "offline e = NetworkError"

definition no_match :: "endpoint \<Rightarrow> geo_json fetch_result" where
  "no_match e = Response 200 (Json (Places []))"

text \<open>
  The case conversion on the code units below 256, which leaves every other code unit
  as it is: on a string of code units below 256 it is \<open>toLowerCase\<close>.
\<close>

definition latin1_lower :: "jsstring \<Rightarrow> jsstring" where
  "latin1_lower q =
     map (\<lambda>u. if (0x41 \<le> u \<and> u \<le> 0x5A) \<or> (0xC0 \<le> u \<and> u \<le> 0xDE \<and> u \<noteq> 0xD7)
              then u + 0x20 else u) q"

text \<open>A geocoding service that knows Paris under the queries \<open>Pari\<close> and \<open>PARI\<close> only.\<close>

abbreviation paris :: place where
  "paris \<equiv> \<lparr>name = str ''Paris'', state = Some (str ''Ile-de-France''), country = str ''FR'',
     lat = 48.8589, lon = 2.32\<rparr>"



text \<open>A query that ends in a character outside the basic plane (U+1F600).\<close>

definition emoji_query :: jsstring where
  "emoji_query = str ''Par'' @ [0xD83D, 0xDE00]"

section \<open>Properties of the index functions\<close>

lemma conversion_lookup_table:
  "conversion_lookup (Num 1) = Num 20"
  "conversion_lookup (Num 2) = Num 60"
  "conversion_lookup (Num 3) = Num 120"
  "conversion_lookup (Num 4) = Num 180"
  "conversion_lookup (Num 5) = Num 250"
  by (simp_all add: conversion_def)

lemma conversion_lookup_other:
  assumes "v \<notin> {Num 1, Num 2, Num 3, Num 4, Num 5}"
  shows "conversion_lookup v = Undefined"
  using assms by (cases v) (simp_all add: conversion_def)

text \<open>
  C2. The provider categories 1, 2, 3, 4, 5 are converted to 20, 60, 120, 180, 250, and
  every other value (any other finite number, \<open>NaN\<close>, an infinity, \<open>undefined\<close>) is
  returned unchanged.
\<close>

theorem convertOpenWeatherMapAQI_table:
  "convertOpenWeatherMapAQI (Num 1) = Num 20 \<and>
   convertOpenWeatherMapAQI (Num 2) = Num 60 \<and>
   convertOpenWeatherMapAQI (Num 3) = Num 120 \<and>
   convertOpenWeatherMapAQI (Num 4) = Num 180 \<and>
   convertOpenWeatherMapAQI (Num 5) = Num 250 \<and>
   (\<forall>v. v \<notin> {Num 1, Num 2, Num 3, Num 4, Num 5} \<longrightarrow> convertOpenWeatherMapAQI v = v)"
proof -
  have other: "convertOpenWeatherMapAQI v = v"
    if "v \<notin> {Num 1, Num 2, Num 3, Num 4, Num 5}" for v
    using conversion_lookup_other [OF that] by (simp add: convertOpenWeatherMapAQI_def)
  show ?thesis
    using other by (simp add: convertOpenWeatherMapAQI_def conversion_def)
qed

theorem convertOpenWeatherMapAQI_table_witness:
  "Num 60 \<notin> {Num 1, Num 2, Num 3, Num 4, Num 5} \<and>
   convertOpenWeatherMapAQI (Num 60) = Num 60 \<and>
   convertOpenWeatherMapAQI (Num 0) = Num 0 \<and>
   convertOpenWeatherMapAQI (Num (5 / 2)) = Num (5 / 2) \<and>
   convertOpenWeatherMapAQI NaN = NaN \<and>
   convertOpenWeatherMapAQI PosInfinity = PosInfinity \<and>
   convertOpenWeatherMapAQI (Num 2) = Num 60"
  using convertOpenWeatherMapAQI_table by simp

text \<open>The five provider categories, as the two \<open>switch\<close> statements map them.\<close>

lemma aqi_categories:
  "map getAQIColor [Num 1, Num 2, Num 3, Num 4, Num 5]
     = [''#22c55e'', ''#eab308'', ''#f97316'', ''#ef4444'', ''#8F3F97'']"
  "map getAQIDescription [Num 1, Num 2, Num 3, Num 4, Num 5]
     = [''Good'', ''Fair'', ''Moderate'', ''Poor'', ''Very Poor'']"
  by (simp_all add: getAQIColor_def getAQIDescription_def)

text \<open>
  C1. A value in the range 1 to 5 is read as a provider category, not as an index: at
  the index 2, inside the band 0 to 50, the colour is yellow and the label is "Fair",
  where the band's colour is green and its label "Good".
\<close>

theorem aqi_bands_two_counterexample:
  "getAQIColor (Num 2) = ''#eab308'' \<and> getAQIColor (Num 2) \<noteq> ''#22c55e'' \<and>
   getAQIDescription (Num 2) = ''Fair'' \<and> getAQIDescription (Num 2) \<noteq> ''Good''"
  by (simp add: getAQIColor_def getAQIDescription_def)

text \<open>
  C1, as the code has it. For every finite index outside the range \<open>1 < x \<le> 5\<close> the
  colour and the label are those of the same band, with the edges 50, 100, 150, 200
  and 300; 50 is "Good" and green, 51 is "Moderate" and yellow, 500 is "Hazardous" and
  gray.
\<close>

theorem aqi_bands_outside_categories:
  assumes "\<not> (1 < x \<and> x \<le> 5)"
  shows
   "(x \<le> 50 \<longrightarrow> getAQIColor (Num x) = ''#22c55e'' \<and> getAQIDescription (Num x) = ''Good'') \<and>
    (50 < x \<and> x \<le> 100 \<longrightarrow>
       getAQIColor (Num x) = ''#eab308'' \<and> getAQIDescription (Num x) = ''Moderate'') \<and>
    (100 < x \<and> x \<le> 150 \<longrightarrow>
       getAQIColor (Num x) = ''#f97316'' \<and>
       getAQIDescription (Num x) = ''Unhealthy for Sensitive Groups'') \<and>
    (150 < x \<and> x \<le> 200 \<longrightarrow>
       getAQIColor (Num x) = ''#ef4444'' \<and> getAQIDescription (Num x) = ''Unhealthy'') \<and>
    (200 < x \<and> x \<le> 300 \<longrightarrow>
       getAQIColor (Num x) = ''#8F3F97'' \<and> getAQIDescription (Num x) = ''Very Unhealthy'') \<and>
    (300 < x \<longrightarrow>
       getAQIColor (Num x) = ''#6b7280'' \<and> getAQIDescription (Num x) = ''Hazardous'')"
proof (cases "x = 1")
  case True
  then show ?thesis by (simp add: getAQIColor_def getAQIDescription_def)
next
  case False
  with assms have out: "x < 1 \<or> 5 < x" by auto
  have c: "getAQIColor (Num x) =
      (if x \<le> 50 then ''#22c55e'' else if x \<le> 100 then ''#eab308''
       else if x \<le> 150 then ''#f97316'' else if x \<le> 200 then ''#ef4444''
       else if x \<le> 300 then ''#8F3F97'' else ''#6b7280'')"
    using out by (auto simp add: getAQIColor_def)
  have d: "getAQIDescription (Num x) =
      (if x \<le> 50 then ''Good'' else if x \<le> 100 then ''Moderate''
       else if x \<le> 150 then ''Unhealthy for Sensitive Groups''
       else if x \<le> 200 then ''Unhealthy''
       else if x \<le> 300 then ''Very Unhealthy'' else ''Hazardous'')"
    using out by (auto simp add: getAQIDescription_def)
  show ?thesis unfolding c d by simp
qed

theorem aqi_bands_outside_categories_witness:
  "getAQIColor (Num 50) = ''#22c55e'' \<and> getAQIDescription (Num 50) = ''Good'' \<and>
   getAQIColor (Num 51) = ''#eab308'' \<and> getAQIDescription (Num 51) = ''Moderate'' \<and>
   getAQIColor (Num 500) = ''#6b7280'' \<and> getAQIDescription (Num 500) = ''Hazardous''"
  using aqi_bands_outside_categories [of 50] aqi_bands_outside_categories [of 51]
    aqi_bands_outside_categories [of 500]
  by simp

text \<open>
  C9. The colour returned for the fractional value 2.5 is the gray of the band above
  300, so it is one of the six band colours.
\<close>

theorem fractional_category_color_counterexample:
  "getAQIColor (Num (5 / 2)) = getAQIColor (Num 500) \<and>
   getAQIColor (Num (5 / 2)) \<in>
     {''#22c55e'', ''#eab308'', ''#f97316'', ''#ef4444'', ''#8F3F97'', ''#6b7280''}"
  by (simp add: getAQIColor_def)

text \<open>
  C9, as the code has it. For every number strictly between 1 and 5 that is not an
  integer, the colour is the fallback gray \<open>#6b7280\<close>, which is also the colour of
  the band above 300, and the label is "Unknown", which is none of the six band
  labels.
\<close>

theorem fractional_category_fallback:
  assumes "1 < x" and "x < 5" and "x \<notin> \<int>"
  shows "getAQIColor (Num x) = ''#6b7280'' \<and> getAQIDescription (Num x) = ''Unknown'' \<and>
    getAQIDescription (Num x) \<notin>
      {''Good'', ''Moderate'', ''Unhealthy for Sensitive Groups'', ''Unhealthy'',
       ''Very Unhealthy'', ''Hazardous''} \<and>
    getAQIColor (Num x) = getAQIColor (Num 500)"
proof -
  have ne: "x \<noteq> 1" "x \<noteq> 2" "x \<noteq> 3" "x \<noteq> 4" "x \<noteq> 5"
    using assms(3) by auto
  have c: "getAQIColor (Num x) = ''#6b7280''"
    using assms(1,2) ne by (simp add: getAQIColor_def)
  have d: "getAQIDescription (Num x) = ''Unknown''"
    using assms(1,2) ne by (simp add: getAQIDescription_def)
  have h: "getAQIColor (Num 500) = ''#6b7280''"
    by (simp add: getAQIColor_def)
  show ?thesis unfolding c d h by simp
qed

theorem fractional_category_fallback_witness:
  "(1::real) < 5 / 2 \<and> (5 / 2 :: real) < 5 \<and> (5 / 2 :: real) \<notin> \<int> \<and>
   getAQIColor (Num (5 / 2)) = ''#6b7280'' \<and> getAQIDescription (Num (5 / 2)) = ''Unknown''"
proof -
  have n: "(5 / 2 :: real) \<notin> \<int>"
  proof
    assume "(5 / 2 :: real) \<in> \<int>"
    then obtain k :: int where k: "(5 / 2 :: real) = of_int k" by (auto elim: Ints_cases)
    then have "(5 :: real) = of_int (2 * k)" by simp
    then have "(5 :: int) = 2 * k" by linarith
    then show False by presburger
  qed
  show ?thesis using fractional_category_fallback [of "5 / 2", OF _ _ n] n by simp
qed

section \<open>Properties of the dominant pollutant\<close>

text \<open>
  The state of the \<open>forEach\<close> loop after any list of entries: either no entry had a
  ratio above the starting maximum and the state is unchanged, or the state names an
  entry whose ratio is above the starting maximum, strictly above the ratio of every
  entry before it and not below the ratio of any entry after it.
\<close>

lemma foldl_dominant_step:
  "(foldl dominant_step (m, d) ps = (m, d) \<and> (\<forall>x\<in>set ps. ratio x \<le> m)) \<or>
   (\<exists>pre x post. ps = pre @ x # post \<and>
      foldl dominant_step (m, d) ps = (ratio x, Some (fst x)) \<and> m < ratio x \<and>
      (\<forall>y\<in>set pre. ratio y < ratio x) \<and> (\<forall>y\<in>set post. ratio y \<le> ratio x))"
proof (induction ps rule: rev_induct)
  case Nil
  then show ?case by simp
next
  case (snoc e ps)
  from snoc.IH show ?case
  proof (elim disjE conjE exE)
    assume same: "foldl dominant_step (m, d) ps = (m, d)" and le: "\<forall>x\<in>set ps. ratio x \<le> m"
    show ?thesis
    proof (cases "m < ratio e")
      case True
      have "foldl dominant_step (m, d) (ps @ [e]) = (ratio e, Some (fst e))"
        using same True by (simp add: dominant_step_def)
      moreover have "\<forall>y\<in>set ps. ratio y < ratio e" using le True by fastforce
      ultimately have "ps @ [e] = ps @ e # [] \<and>
          foldl dominant_step (m, d) (ps @ [e]) = (ratio e, Some (fst e)) \<and> m < ratio e \<and>
          (\<forall>y\<in>set ps. ratio y < ratio e) \<and> (\<forall>y\<in>set []. ratio y \<le> ratio e)"
        using True by simp
      then show ?thesis by blast
    next
      case False
      then have "foldl dominant_step (m, d) (ps @ [e]) = (m, d)"
        using same by (simp add: dominant_step_def)
      moreover have "\<forall>x\<in>set (ps @ [e]). ratio x \<le> m" using le False by auto
      ultimately show ?thesis by blast
    qed
  next
    fix pre x post
    assume ps: "ps = pre @ x # post"
      and res: "foldl dominant_step (m, d) ps = (ratio x, Some (fst x))"
      and gt: "m < ratio x"
      and before: "\<forall>y\<in>set pre. ratio y < ratio x"
      and after: "\<forall>y\<in>set post. ratio y \<le> ratio x"
    show ?thesis
    proof (cases "ratio x < ratio e")
      case True
      have "foldl dominant_step (m, d) (ps @ [e]) = (ratio e, Some (fst e))"
        using res True by (simp add: dominant_step_def)
      moreover have "\<forall>y\<in>set ps. ratio y < ratio e"
        using ps before after True by fastforce
      moreover have "m < ratio e" using gt True by simp
      ultimately have "ps @ [e] = ps @ e # [] \<and>
          foldl dominant_step (m, d) (ps @ [e]) = (ratio e, Some (fst e)) \<and> m < ratio e \<and>
          (\<forall>y\<in>set ps. ratio y < ratio e) \<and> (\<forall>y\<in>set []. ratio y \<le> ratio e)"
        by simp
      then show ?thesis by blast
    next
      case False
      have "foldl dominant_step (m, d) (ps @ [e]) = (ratio x, Some (fst x))"
        using res False by (simp add: dominant_step_def)
      moreover have "\<forall>y\<in>set (post @ [e]). ratio y \<le> ratio x" using after False by auto
      moreover have "ps @ [e] = pre @ x # (post @ [e])" using ps by simp
      ultimately show ?thesis using gt before by blast
    qed
  qed
qed

lemma dominant_first_largest:
  assumes "\<exists>x\<in>set ps. 0 < ratio x"
  shows "\<exists>pre x post. ps = pre @ x # post \<and>
      getDominantPollutant (Some ps) = Some (fst x) \<and>
      (\<forall>y\<in>set pre. ratio y < ratio x) \<and> (\<forall>y\<in>set post. ratio y \<le> ratio x)"
proof -
  from assms have "\<not> (\<forall>x\<in>set ps. ratio x \<le> 0)" by fastforce
  with foldl_dominant_step [of 0 None ps]
  obtain pre x post where ps: "ps = pre @ x # post"
    and res: "foldl dominant_step (0, None) ps = (ratio x, Some (fst x))"
    and before: "\<forall>y\<in>set pre. ratio y < ratio x"
    and after: "\<forall>y\<in>set post. ratio y \<le> ratio x"
    by blast
  from res have "getDominantPollutant (Some ps) = Some (fst x)"
    by (simp add: getDominantPollutant_def)
  with ps before after show ?thesis by blast
qed

lemma dominant_none:
  assumes "\<forall>x\<in>set ps. \<not> 0 < ratio x"
  shows "getDominantPollutant (Some ps) = None"
proof -
  from assms have "\<forall>x\<in>set ps. ratio x \<le> 0" by fastforce
  with foldl_dominant_step [of 0 None ps]
  have "foldl dominant_step (0, None) ps = (0, None)" by fastforce
  then show ?thesis by (simp add: getDominantPollutant_def)
qed

text \<open>Quotients of the readings used below, as the double division gives them.\<close>

lemmas double_eval = to_double_def exponent_def bits.simps round_half_even_def Let_def

lemma to_double_sample:
  "to_double 0 = 0"
  "to_double 2 = 2"
  "to_double (4 / 9) = 2001599834386887 / 4503599627370496"
  "to_double (2 / 5) = 3602879701896397 / 9007199254740992"
  "to_double (1 / 8) = 1 / 8"
  "to_double (1 / 2) = 1 / 2"
  "to_double (1 / 4000) = 1152921504606847 / 4611686018427387904"
  by (simp_all add: double_eval)

text \<open>The doubles that the decimal numbers 5.04, 8.4, 0.7 and 2.1 of a payload denote.\<close>

lemma to_double_decimals:
  "to_double (504 / 100) = 5674535530486825 / 1125899906842624"
  "to_double (84 / 10) = 4728779608739021 / 562949953421312"
  "to_double (7 / 10) = 3152519739159347 / 4503599627370496"
  "to_double (21 / 10) = 4728779608739021 / 2251799813685248"
  by (simp_all add: double_eval)

lemma to_double_quotients:
  "to_double (5674535530486825 / 1125899906842624 / 15) = 6052837899185947 / 18014398509481984"
  "to_double (4728779608739021 / 562949953421312 / 25) = 6052837899185947 / 18014398509481984"
  "to_double (3152519739159347 / 4503599627370496 / 15) = 1681343860884985 / 36028797018963968"
  "to_double (4728779608739021 / 2251799813685248 / 45) = 6725375443539941 / 144115188075855872"
  by (simp_all add: double_eval)

text \<open>The smallest positive double, 5e-324, and its quotient by 15, which is 0.\<close>

lemma to_double_underflow:
  "to_double (1 / 2 ^ 1074) = 1 / 2 ^ 1074"
  "to_double (1 / 2 ^ 1074 / 15) = 0"
  by (simp_all add: to_double_def round_half_even_def)

text \<open>
  Two quotients that the rounding makes equal, where the exact quotient of the later
  entry is the larger one: the first entry is kept. Two quotients that differ by one
  unit in the last place: the larger one wins.
\<close>

lemma rounded_tie_keeps_first:
  "to_double (504 / 100) / 15 < to_double (84 / 10) / 25"
  "getDominantPollutant (Some (mk_reading (to_double (504 / 100)) 0 (to_double (84 / 10)) 0 0 0))
     = Some PM2_5"
  "getDominantPollutant (Some (mk_reading (to_double (7 / 10)) (to_double (21 / 10)) 0 0 0 0))
     = Some PM10"
  "getDominantPollutant
     (Some (mk_reading 31 (to_double (9300000000000001 / 100000000000000)) 0 0 0 0))
     = Some PM2_5"
  by (simp_all add: getDominantPollutant_def mk_reading_def dominant_step_def ratio_def
      double_eval)

text \<open>
  C6. For the reading whose six concentrations are all zero no ratio is above the
  starting maximum 0, and the function returns \<open>null\<close>, not the first pollutant of the
  six that tie.
\<close>

theorem zero_reading_counterexample:
  "getDominantPollutant (Some (mk_reading 0 0 0 0 0 0)) = None \<and>
   getDominantPollutant (Some (mk_reading 0 0 0 0 0 0)) \<noteq> Some PM2_5"
  by (simp add: getDominantPollutant_def mk_reading_def dominant_step_def ratio_def
      double_eval)

text \<open>
  C6, as the code has it. The guidelines are 15, 45, 25, 40, 100 and 4000 and the
  entries are enumerated in the order PM2_5, PM10, NO2, SO2, O3, CO. The ratio of an
  entry is the double quotient of its concentration by its guideline. For every
  reading in which some ratio is strictly positive, the function returns the pollutant
  of an entry whose ratio is strictly larger than the ratio of every entry enumerated
  before it and at least the ratio of every entry enumerated after it: the largest
  ratio, and on a tie the first.
\<close>

theorem dominant_is_first_largest:
  assumes "\<exists>(k, v)\<in>set (mk_reading a b c d e f). 0 < to_double (v / guidelines k)"
  shows "map guidelines [PM2_5, PM10, NO2, SO2, O3, CO] = [15, 45, 25, 40, 100, 4000] \<and>
    map fst (mk_reading a b c d e f) = [PM2_5, PM10, NO2, SO2, O3, CO] \<and>
    (\<exists>pre k v post. mk_reading a b c d e f = pre @ (k, v) # post \<and>
       getDominantPollutant (Some (mk_reading a b c d e f)) = Some k \<and>
       (\<forall>(k', v')\<in>set pre. to_double (v' / guidelines k') < to_double (v / guidelines k)) \<and>
       (\<forall>(k', v')\<in>set post. to_double (v' / guidelines k') \<le> to_double (v / guidelines k)))"
proof -
  have keys: "map fst (mk_reading a b c d e f) = [PM2_5, PM10, NO2, SO2, O3, CO]"
    by (simp add: mk_reading_def)
  from assms have "\<exists>x\<in>set (mk_reading a b c d e f). 0 < ratio x"
    by (simp add: ratio_def case_prod_beta)
  from dominant_first_largest [OF this]
  obtain pre x post where r: "mk_reading a b c d e f = pre @ x # post"
    and g: "getDominantPollutant (Some (mk_reading a b c d e f)) = Some (fst x)"
    and before: "\<forall>y\<in>set pre. ratio y < ratio x"
    and after: "\<forall>y\<in>set post. ratio y \<le> ratio x"
    by blast
  have "mk_reading a b c d e f = pre @ (fst x, snd x) # post" using r by simp
  moreover have "\<forall>(k', v')\<in>set pre.
      to_double (v' / guidelines k') < to_double (snd x / guidelines (fst x))"
    using before by (auto simp add: ratio_def)
  moreover have "\<forall>(k', v')\<in>set post.
      to_double (v' / guidelines k') \<le> to_double (snd x / guidelines (fst x))"
    using after by (auto simp add: ratio_def)
  ultimately have "\<exists>pre k v post. mk_reading a b c d e f = pre @ (k, v) # post \<and>
       getDominantPollutant (Some (mk_reading a b c d e f)) = Some k \<and>
       (\<forall>(k', v')\<in>set pre. to_double (v' / guidelines k') < to_double (v / guidelines k)) \<and>
       (\<forall>(k', v')\<in>set post. to_double (v' / guidelines k') \<le> to_double (v / guidelines k))"
    using g by blast
  with keys show ?thesis by simp
qed

theorem dominant_is_first_largest_witness:
  "(\<exists>(k, v)\<in>set (mk_reading 30 20 10 5 50 2000). 0 < to_double (v / guidelines k)) \<and>
   map (\<lambda>(k, v). to_double (v / guidelines k)) (mk_reading 30 20 10 5 50 2000)
     = [2, 2001599834386887 / 4503599627370496, 3602879701896397 / 9007199254740992,
        1 / 8, 1 / 2, 1 / 2] \<and>
   getDominantPollutant (Some (mk_reading 30 20 10 5 50 2000)) = Some PM2_5 \<and>
   (\<exists>pre k v post. mk_reading 30 20 10 5 50 2000 = pre @ (k, v) # post \<and>
      getDominantPollutant (Some (mk_reading 30 20 10 5 50 2000)) = Some k \<and>
      (\<forall>(k', v')\<in>set pre. to_double (v' / guidelines k') < to_double (v / guidelines k)) \<and>
      (\<forall>(k', v')\<in>set post. to_double (v' / guidelines k') \<le> to_double (v / guidelines k)))"
proof -
  have pos: "\<exists>(k, v)\<in>set (mk_reading 30 20 10 5 50 2000). 0 < to_double (v / guidelines k)"
    by (simp add: mk_reading_def double_eval)
  have ratios: "map (\<lambda>(k, v). to_double (v / guidelines k)) (mk_reading 30 20 10 5 50 2000)
     = [2, 2001599834386887 / 4503599627370496, 3602879701896397 / 9007199254740992,
        1 / 8, 1 / 2, 1 / 2]"
    by (simp add: mk_reading_def double_eval)
  have val: "getDominantPollutant (Some (mk_reading 30 20 10 5 50 2000)) = Some PM2_5"
    by (simp add: getDominantPollutant_def mk_reading_def dominant_step_def ratio_def
        double_eval)
  from dominant_is_first_largest [OF pos] pos ratios val show ?thesis by blast
qed

text \<open>
  C10. The ratio of an entry is the double quotient of its concentration by its
  guideline. The function returns \<open>null\<close> exactly when it is given no reading or no
  entry of the reading has a strictly positive ratio; a quotient that underflows to 0
  is not strictly positive.
\<close>

theorem null_iff_no_positive_ratio:
  "getDominantPollutant r = None \<longleftrightarrow>
     (case r of None \<Rightarrow> True
      | Some ps \<Rightarrow> \<forall>(k, v)\<in>set ps. \<not> 0 < to_double (v / guidelines k))"
proof (cases r)
  case None
  then show ?thesis by (simp add: getDominantPollutant_def)
next
  case (Some ps)
  have eq: "(\<forall>(k, v)\<in>set ps. \<not> 0 < to_double (v / guidelines k))
      \<longleftrightarrow> (\<forall>x\<in>set ps. \<not> 0 < ratio x)"
    by (auto simp add: ratio_def)
  show ?thesis
  proof (cases "\<exists>x\<in>set ps. 0 < ratio x")
    case True
    with dominant_first_largest [OF True] Some eq show ?thesis by auto
  next
    case False
    with dominant_none [of ps] Some eq show ?thesis by simp
  qed
qed

theorem null_iff_no_positive_ratio_witness:
  "getDominantPollutant (Some (mk_reading 0 0 0 0 0 0)) = None \<and>
   getDominantPollutant (Some (mk_reading 0 0 0 0 0 1)) \<noteq> None \<and>
   to_double (1 / 2 ^ 1074 / 15) = 0 \<and>
   getDominantPollutant (Some (mk_reading (1 / 2 ^ 1074) 0 0 0 0 0)) = None \<and>
   getDominantPollutant None = None"
  using null_iff_no_positive_ratio [of "Some (mk_reading 0 0 0 0 0 0)"]
    null_iff_no_positive_ratio [of "Some (mk_reading 0 0 0 0 0 1)"]
    null_iff_no_positive_ratio [of "Some (mk_reading (1 / 2 ^ 1074) 0 0 0 0 0)"]
    null_iff_no_positive_ratio [of None]
  by (simp add: mk_reading_def double_eval)

section \<open>Properties of the location resolution\<close>

text \<open>
  The clock does not go back, so an entry that the first read of the cache rejects is
  rejected by every later read: the read in the \<open>catch\<close> block never returns a
  position, and a failed geolocation leaves the coordinates as they were.
\<close>

lemma getCachedPosition_stays_expired:
  assumes "t \<le> t'" and "getCachedPosition stored t = None"
  shows "getCachedPosition stored t' = None"
  using assms by (cases stored) (simp_all add: getCachedPosition_def split: if_splits)

lemma failed_geolocation_keeps_coordinates:
  assumes "now env \<le> later env"
    and "getCachedPosition (localStorage s) (now env) = None"
    and "geolocate env = Failed"
  shows "getUserLocation env s = s"
  using assms getCachedPosition_stays_expired [OF assms(1,2)]
  by (simp add: getUserLocation_def)

text \<open>
  C3. The cache holds a position written 31 minutes ago and both position requests
  fail: the coordinates stay at the default, New York City, and the cached position
  is not used.
\<close>

theorem expired_cache_not_used_on_failure:
  "getCachedPosition (Item 51.5074 (- 0.1278) 0) (31 * 60 * 1000) = None \<and>
   latitude (getUserLocation
      \<lparr>has_geolocation = True, high_accuracy = Failed, low_accuracy = Failed,
       now = 31 * 60 * 1000, later = 31 * 60 * 1000 + 8000, storage_writable = True\<rparr>
      (initial_location (Item 51.5074 (- 0.1278) 0))) = 40.7128 \<and>
   longitude (getUserLocation
      \<lparr>has_geolocation = True, high_accuracy = Failed, low_accuracy = Failed,
       now = 31 * 60 * 1000, later = 31 * 60 * 1000 + 8000, storage_writable = True\<rparr>
      (initial_location (Item 51.5074 (- 0.1278) 0))) = - 74.0060"
  by (simp add: getUserLocation_def getCachedPosition_def CACHE_EXPIRY_TIME_def geolocate_def
      initial_location_def)

section \<open>Properties of the fetch\<close>


text \<open>
  A first entry without \<open>main\<close> throws before any assignment; a first entry with
  \<open>main\<close> and without \<open>components\<close> throws after \<open>currentAQI\<close> has been assigned.
\<close>

lemma fetch_missing_main:
  assumes "cur = Response cs (Json cp)" and "ok cs" and "fc = Response fs (Json fp)" and "ok fs"
    and "payload_list cp = Some (current # rest)" and "main current = None"
  shows "fetch_try cur fc canvas s = Inl s"
  using assms by (simp add: fetch_try_def)


lemma fetch_missing_components:
  assumes "cur = Response cs (Json cp)" and "ok cs" and "fc = Response fs (Json fp)" and "ok fs"
    and "payload_list cp = Some (current # rest)" and "main current = Some m"
    and "components current = None"
  shows "fetch_try cur fc canvas s = Inl (s\<lparr>currentAQI := convertOpenWeatherMapAQI (aqi m)\<rparr>)"
  using assms by (simp add: fetch_try_def)






text \<open>The series \<open>updateChart\<close> draws when every item has \<open>main\<close>.\<close>

lemma those_main_aqi:
  assumes "\<forall>e\<in>set data. main e \<noteq> None"
  shows "those (map (\<lambda>item. map_option aqi (main item)) data)
    = Some (map (\<lambda>item. aqi (the (main item))) data)"
  using assms by (induction data) auto

lemma updateChart_draws:
  assumes "\<forall>e\<in>set data. main e \<noteq> None"
  shows "updateChart True data s
    = s\<lparr>chart := Some (map (\<lambda>item. convertOpenWeatherMapAQI (aqi (the (main item)))) data)\<rparr>"
  using those_main_aqi [OF assms] by (simp add: updateChart_def comp_def)

lemma forecastData_updateChart: "forecastData (updateChart canvas data s) = forecastData s"
  by (simp add: updateChart_def split: option.splits)

lemma forecastData_fetch_try:
  assumes "fetch_try cur fc canvas s = Inl t \<or> fetch_try cur fc canvas s = Inr t"
  shows "forecastData t = forecastData s \<or> (\<exists>fl. forecastData t = take 24 fl)"
  using assms
  by (auto simp add: fetch_try_def forecastData_updateChart Let_def
      split: fetch_result.splits body.splits option.splits list.splits if_splits)

lemma fetch_try_success:
  assumes "cur = Response cs (Json cp)" and "ok cs"
    and "payload_list cp = Some (current # rest)"
    and "main current = Some m" and "components current = Some c"
    and "fc = Response fs (Json fp)" and "ok fs"
    and "payload_list fp = Some fl" and "fl \<noteq> []"
  shows "fetch_try cur fc canvas s =
    Inr ((if canvas then updateChart canvas (take 24 fl) else id)
          (s\<lparr>currentAQI := convertOpenWeatherMapAQI (aqi m), pollutants := pollutants_of c,
             forecastData := take 24 fl\<rparr>)
         \<lparr>lastUpdateTime := Some (dt current * 1000)\<rparr>)"
  using assms by (simp add: fetch_try_def Let_def)

text \<open>
  C5. When the call reaches the forecast step (both responses successful and parsed,
  the first current entry with \<open>main\<close> and \<open>components\<close>) and the forecast list has at
  least 24 entries, the stored forecast is its first 24 entries in their order, and
  with a canvas the chart draws the converted index of exactly these entries. No call
  makes a forecast of at most 24 points longer than 24 points.
\<close>

theorem forecast_first_24:
  assumes "cur = Response cs (Json cp)" and "ok cs"
    and "payload_list cp = Some (current # rest)"
    and "main current = Some m" and "components current = Some c"
    and "fc = Response fs (Json fp)" and "ok fs"
    and "payload_list fp = Some fl" and "24 \<le> length fl"
  shows "forecastData (fetchAirQuality cur fc canvas s) = take 24 fl \<and>
    length (forecastData (fetchAirQuality cur fc canvas s)) = 24 \<and>
    (\<forall>i<24. forecastData (fetchAirQuality cur fc canvas s) ! i = fl ! i) \<and>
    (canvas \<and> (\<forall>e\<in>set (take 24 fl). main e \<noteq> None) \<longrightarrow>
       chart (fetchAirQuality cur fc canvas s)
         = Some (map (\<lambda>e. convertOpenWeatherMapAQI (aqi (the (main e)))) (take 24 fl))) \<and>
    (length (forecastData s') \<le> 24 \<longrightarrow>
       length (forecastData (fetchAirQuality cur' fc' canvas' s')) \<le> 24)"
proof -
  from assms(9) have ne: "fl \<noteq> []" by auto
  have run: "fetchAirQuality cur fc canvas s =
      (if canvas then updateChart canvas (take 24 fl) else id)
          (s\<lparr>currentAQI := convertOpenWeatherMapAQI (aqi m), pollutants := pollutants_of c,
             forecastData := take 24 fl\<rparr>)
         \<lparr>lastUpdateTime := Some (dt current * 1000)\<rparr>"
    using fetch_try_success [OF assms(1-8) ne, of canvas s]
    by (simp add: fetchAirQuality_def)
  have stored: "forecastData (fetchAirQuality cur fc canvas s) = take 24 fl"
    unfolding run by (simp add: forecastData_updateChart)
  have len: "length (forecastData (fetchAirQuality cur fc canvas s)) = 24"
    unfolding stored using assms(9) by simp
  have nth: "\<forall>i<24. forecastData (fetchAirQuality cur fc canvas s) ! i = fl ! i"
    unfolding stored by simp
  have drawn: "chart (fetchAirQuality cur fc canvas s)
         = Some (map (\<lambda>e. convertOpenWeatherMapAQI (aqi (the (main e)))) (take 24 fl))"
    if "canvas" and "\<forall>e\<in>set (take 24 fl). main e \<noteq> None"
    unfolding run using that by (simp add: updateChart_draws)
  have bound: "length (forecastData (fetchAirQuality cur' fc' canvas' s')) \<le> 24"
    if "length (forecastData s') \<le> 24"
  proof -
    obtain t where t: "fetch_try cur' fc' canvas' s' = Inl t \<or> fetch_try cur' fc' canvas' s' = Inr t"
      by (cases "fetch_try cur' fc' canvas' s'") auto
    from forecastData_fetch_try [OF t] that have "length (forecastData t) \<le> 24" by auto
    with t show ?thesis by (auto simp add: fetchAirQuality_def)
  qed
  from stored len nth drawn bound show ?thesis by blast
qed

theorem forecast_first_24_witness:
  "ok 200 \<and> 24 \<le> length (map (\<lambda>k. sample_entry (real k) 2) [0..<40]) \<and>
   forecastData (fetchAirQuality sample_current (sample_forecast 40) True initial_view)
     = map (\<lambda>k. sample_entry (real k) 2) [0..<24] \<and>
   length (forecastData (fetchAirQuality sample_current (sample_forecast 40) True initial_view)) = 24 \<and>
   chart (fetchAirQuality sample_current (sample_forecast 40) True initial_view)
     = Some (replicate 24 (Num 60))"
proof -
  have k: "ok 200" by (simp add: ok_def)
  have l: "24 \<le> length (map (\<lambda>k. sample_entry (real k) 2) [0..<40])" by simp
  have t: "take 24 (map (\<lambda>k. sample_entry (real k) 2) [0..<40])
      = map (\<lambda>k. sample_entry (real k) 2) [0..<24]"
    by (simp add: take_map)
  have c: "map (\<lambda>e. convertOpenWeatherMapAQI (aqi (the (main e))))
      (map (\<lambda>k. sample_entry (real k) 2) [0..<24]) = replicate 24 (Num 60)"
    by (simp add: convertOpenWeatherMapAQI_def conversion_def comp_def map_replicate_const)
  show ?thesis
    using forecast_first_24 [where cur = sample_current and cs = 200
        and cp = "\<lparr>payload_list = Some [sample_entry 1700000000 2]\<rparr>"
        and current = "sample_entry 1700000000 2" and rest = "[]"
        and m = "\<lparr>aqi = Num 2\<rparr>" and c = sample_components
        and fc = "sample_forecast 40" and fs = 200
        and fp = "\<lparr>payload_list = Some (map (\<lambda>k. sample_entry (real k) 2) [0..<40])\<rparr>"
        and fl = "map (\<lambda>k. sample_entry (real k) 2) [0..<40]"
        and canvas = True and s = initial_view and s' = initial_view
        and cur' = NetworkError and fc' = NetworkError and canvas' = False]
      k l t c
    by simp
qed

section \<open>Properties of the search\<close>

text \<open>\<open>js_includes s t\<close> holds exactly when \<open>t\<close> occurs in \<open>s\<close> as a contiguous part.\<close>

lemma js_includes_iff: "js_includes s t \<longleftrightarrow> (\<exists>pre post. s = pre @ t @ post)"
proof (induction s)
  case Nil
  then show ?case by simp
next
  case (Cons c cs)
  have "take (length t) (c # cs) = t \<longleftrightarrow> (\<exists>post. c # cs = t @ post)"
  proof
    assume "take (length t) (c # cs) = t"
    then have "c # cs = t @ drop (length t) (c # cs)"
      using append_take_drop_id [of "length t" "c # cs"] by simp
    then show "\<exists>post. c # cs = t @ post" ..
  next
    assume "\<exists>post. c # cs = t @ post"
    then obtain post where "c # cs = t @ post" ..
    then show "take (length t) (c # cs) = t" by simp
  qed
  moreover have "(\<exists>pre post. c # cs = pre @ t @ post) \<longleftrightarrow>
      (\<exists>post. c # cs = t @ post) \<or> (\<exists>pre post. cs = pre @ t @ post)"
  proof
    assume "\<exists>pre post. c # cs = pre @ t @ post"
    then obtain pre post where e: "c # cs = pre @ t @ post" by blast
    show "(\<exists>post. c # cs = t @ post) \<or> (\<exists>pre post. cs = pre @ t @ post)"
    proof (cases pre)
      case Nil
      with e show ?thesis by auto
    next
      case (Cons p pre')
      with e have "cs = pre' @ t @ post" by simp
      then show ?thesis by blast
    qed
  next
    assume "(\<exists>post. c # cs = t @ post) \<or> (\<exists>pre post. cs = pre @ t @ post)"
    then show "\<exists>pre post. c # cs = pre @ t @ post"
    proof
      assume "\<exists>post. c # cs = t @ post"
      then obtain post where "c # cs = [] @ t @ post" by auto
      then show ?thesis by blast
    next
      assume "\<exists>pre post. cs = pre @ t @ post"
      then obtain pre post where "c # cs = (c # pre) @ t @ post" by auto
      then show ?thesis by blast
    qed
  qed
  ultimately show ?case using Cons.IH by simp
qed

text \<open>
  A query of digits is not blank and is well formed, and a blank query is one of white
  space only.
\<close>

lemma digit_not_space: "is_digit u \<Longrightarrow> \<not> is_space u"
  by (auto simp add: is_digit_def is_space_def)

lemma digit_not_surrogate: "is_digit u \<Longrightarrow> \<not> is_high u \<and> \<not> is_low u"
  by (auto simp add: is_digit_def is_high_def is_low_def word_le_nat_alt)

lemma dropWhile_all:
  assumes "\<forall>c\<in>set (dropWhile P q). P c"
  shows "dropWhile P q = []"
proof (rule ccontr)
  assume ne: "dropWhile P q \<noteq> []"
  then have "\<not> P (hd (dropWhile P q))" by (rule hd_dropWhile)
  moreover from ne have "hd (dropWhile P q) \<in> set (dropWhile P q)" by simp
  ultimately show False using assms by blast
qed

lemma trim_empty_iff: "trim q = [] \<longleftrightarrow> (\<forall>c\<in>set q. is_space c)"
proof
  assume "trim q = []"
  then have "dropWhile is_space (rev (dropWhile is_space q)) = []" by (simp add: trim_def)
  then have "\<forall>c\<in>set (rev (dropWhile is_space q)). is_space c"
    by (simp only: dropWhile_eq_Nil_conv)
  then have "\<forall>c\<in>set (dropWhile is_space q). is_space c" by simp
  then have "dropWhile is_space q = []" by (rule dropWhile_all)
  then show "\<forall>c\<in>set q. is_space c" by (simp only: dropWhile_eq_Nil_conv)
next
  assume "\<forall>c\<in>set q. is_space c"
  then have "dropWhile is_space q = []" by (simp only: dropWhile_eq_Nil_conv)
  then show "trim q = []" unfolding trim_def by (simp only: rev.simps dropWhile.simps)
qed

lemma all_digits_not_blank: "all_digits q \<Longrightarrow> trim q \<noteq> []"
proof
  assume d: "all_digits q" and "trim q = []"
  then have sp: "\<forall>c\<in>set q. is_space c" by (simp only: trim_empty_iff)
  from d obtain c cs where q: "q = c # cs" by (cases q) (simp_all add: all_digits_def)
  with d have "is_digit c" by (simp add: all_digits_def)
  with sp q digit_not_space [of c] show False by simp
qed

lemma zip_code_all_digits: "zip_code q \<Longrightarrow> all_digits q"
  by (auto simp add: zip_code_def all_digits_def)

lemma digits_well_formed: "list_all is_digit q \<Longrightarrow> well_formed q"
  by (induction q rule: well_formed.induct) (auto simp add: digit_not_surrogate)

lemma all_digits_well_formed: "all_digits q \<Longrightarrow> well_formed q"
  by (simp add: all_digits_def digits_well_formed)


text \<open>
  The \<open>try\<close> block issues the first lookup and at most the relaxed one, and only for a
  query that is not a postal code.
\<close>

lemma requests_search_try:
  assumes "zip_code query \<or> well_formed query"
  shows "snd (search_try lower net query s)
      = [if zip_code query then ZipLookup query else DirectLookup query 10]
   \<or> (\<not> zip_code query \<and> snd (search_try lower net query s)
      = [DirectLookup query 10, DirectLookup (butlast query) 10])"
proof (cases "zip_code query")
  case True
  then show ?thesis
    by (simp add: search_try_def Let_def split: fetch_result.splits body.splits geo_json.splits)
next
  case False
  with assms have w: "well_formed query" by simp
  show ?thesis
  proof (cases "net (DirectLookup query 10)")
    case NetworkError
    with False w show ?thesis by (simp add: search_try_def)
  next
    case (Response status b)
    show ?thesis
    proof (cases b)
      case BadJson
      with Response False w show ?thesis by (simp add: search_try_def)
    next
      case (Json data)
      with Response False w show ?thesis
        by (simp add: search_try_def Let_def
            split: fetch_result.splits body.splits geo_json.splits)
    qed
  qed
qed

lemma requests_searchLocation:
  assumes "trim query \<noteq> []" and "3 \<le> length query \<or> all_digits query"
  shows "snd (searchLocation lower net query s)
    = snd (search_try lower net query (s\<lparr>isSearching := True, searchError := []\<rparr>))"
  using assms by (auto simp add: searchLocation_def split: prod.splits option.splits)

lemma requests_zip:
  assumes "zip_code query"
  shows "snd (search_try lower net query s) = [ZipLookup query]"
  using requests_search_try [of query lower net s] assms by auto

lemmas string_eval = str_def trim_def is_space_def is_digit_def zip_code_def all_digits_def
  is_high_def is_low_def

text \<open>A rejected request ends in the \<open>catch\<close> block: its message, and no results.\<close>

lemma search_offline:
  "searchLocation lower offline (str ''Par'') initial_search =
     (initial_search\<lparr>searchError := search_error_message\<rparr>, [DirectLookup (str ''Par'') 10])"
  by (simp add: searchLocation_def search_try_def offline_def initial_search_def string_eval)

text \<open>
  C7. A query of three blanks has length 3 and is no postal code, yet the call returns
  at once and issues no lookup; and the empty query, which is not numeric and shorter
  than 3, leaves the results that are displayed in place instead of emptying them.
\<close>

theorem blank_query_counterexample:
  "\<not> zip_code (str ''   '') \<and> 3 \<le> length (str ''   '') \<and>
   snd (searchLocation latin1_lower no_match (str ''   '') initial_search) = [] \<and>
   \<not> all_digits [] \<and> length ([] :: jsstring) < 3 \<and>
   searchResults (fst (searchLocation latin1_lower no_match []
       (initial_search\<lparr>searchResults := [of_place paris]\<rparr>)))
     = [of_place paris]"
  by (simp add: searchLocation_def string_eval)

text \<open>
  C7, as the code has it. A 5-digit query goes to the postal-code lookup and to no other
  request. A query that is not blank, not a postal code, of length at least 3 (or made
  of digits only) and well formed goes first to the free-text lookup with limit 10. A
  query that is not blank, shorter than 3 and not made of digits only empties the
  results and issues no request. A blank query changes nothing and issues no request.
  A query that is not blank, of length at least 3 and not well formed issues no request
  and ends with the message of the \<open>catch\<close> block.
\<close>

theorem search_routing:
  "(zip_code query \<longrightarrow> snd (searchLocation lower net query s) = [ZipLookup query]) \<and>
   (trim query \<noteq> [] \<and> \<not> zip_code query \<and> (3 \<le> length query \<or> all_digits query) \<and>
    well_formed query \<longrightarrow>
      (\<exists>rest. snd (searchLocation lower net query s) = DirectLookup query 10 # rest)) \<and>
   (trim query \<noteq> [] \<and> length query < 3 \<and> \<not> all_digits query \<longrightarrow>
      searchLocation lower net query s = (s\<lparr>searchResults := []\<rparr>, [])) \<and>
   (trim query = [] \<longrightarrow> searchLocation lower net query s = (s, [])) \<and>
   (trim query \<noteq> [] \<and> 3 \<le> length query \<and> \<not> well_formed query \<longrightarrow>
      searchLocation lower net query s =
        (s\<lparr>isSearching := False, searchError := search_error_message, searchResults := []\<rparr>,
         []))"
proof (intro conjI impI)
  assume z: "zip_code query"
  then have "all_digits query" by (rule zip_code_all_digits)
  then have "trim query \<noteq> []" and "3 \<le> length query \<or> all_digits query"
    by (simp_all add: all_digits_not_blank)
  then show "snd (searchLocation lower net query s) = [ZipLookup query]"
    using z by (simp add: requests_searchLocation requests_zip)
next
  assume a: "trim query \<noteq> [] \<and> \<not> zip_code query \<and> (3 \<le> length query \<or> all_digits query) \<and>
    well_formed query"
  then have "snd (searchLocation lower net query s)
      = snd (search_try lower net query (s\<lparr>isSearching := True, searchError := []\<rparr>))"
    by (simp add: requests_searchLocation)
  with a requests_search_try [of query lower net "s\<lparr>isSearching := True, searchError := []\<rparr>"]
  show "\<exists>rest. snd (searchLocation lower net query s) = DirectLookup query 10 # rest"
    by auto
next
  assume "trim query \<noteq> [] \<and> length query < 3 \<and> \<not> all_digits query"
  then show "searchLocation lower net query s = (s\<lparr>searchResults := []\<rparr>, [])"
    by (simp add: searchLocation_def)
next
  assume "trim query = []"
  then show "searchLocation lower net query s = (s, [])" by (simp add: searchLocation_def)
next
  assume a: "trim query \<noteq> [] \<and> 3 \<le> length query \<and> \<not> well_formed query"
  then have "\<not> zip_code query"
    using zip_code_all_digits [of query] all_digits_well_formed [of query] by blast
  with a show "searchLocation lower net query s =
        (s\<lparr>isSearching := False, searchError := search_error_message, searchResults := []\<rparr>,
         [])"
    by (simp add: searchLocation_def search_try_def)
qed

theorem search_routing_witness:
  "zip_code (str ''10001'') \<and>
   snd (searchLocation latin1_lower no_match (str ''10001'') initial_search)
     = [ZipLookup (str ''10001'')] \<and>
   (\<exists>rest. snd (searchLocation latin1_lower no_match (str ''Par'') initial_search)
      = DirectLookup (str ''Par'') 10 # rest) \<and>
   searchLocation latin1_lower no_match (str ''Pa'') initial_search
     = (initial_search\<lparr>searchResults := []\<rparr>, []) \<and>
   \<not> well_formed (butlast emoji_query) \<and>
   searchLocation latin1_lower no_match (butlast emoji_query) initial_search
     = (initial_search\<lparr>searchError := search_error_message\<rparr>, [])"
  using search_routing [of "str ''10001''" latin1_lower no_match initial_search]
    search_routing [of "str ''Par''" latin1_lower no_match initial_search]
    search_routing [of "str ''Pa''" latin1_lower no_match initial_search]
    search_routing [of "butlast emoji_query" latin1_lower no_match initial_search]
  by (simp add: string_eval emoji_query_def initial_search_def)





end
